theory Spec2Isabelle
  imports Main "HOL-Library.Word"
begin

unbundle bit_operations_syntax

section \<open>Primitive value model\<close>

text \<open>
  The header \<^verbatim>\<open>asset_ops.hpp\<close> uses the fixed-width integers of C++ and a few types of
  \<^verbatim>\<open>base.hpp\<close>. Unsigned machine integers are words of their width; comparisons on
  words are unsigned, as the comparisons of the header are after integer promotion.
\<close>

type_synonym uint8_t = "8 word"
type_synonym uint16_t = "16 word"
type_synonym uint32_t = "32 word"
type_synonym uint64_t = "64 word"

text \<open>
  \<^verbatim>\<open>share_type\<close> is a signed 64-bit integer. A value of the type is represented by the
  integer it holds; where a \<^verbatim>\<open>share_type\<close> is computed from machine integers, the 64-bit
  arithmetic is written out and its result is read as a signed number.
\<close>

type_synonym share_type = int

text \<open>Object identifiers are instance numbers, kept apart by their type.\<close>

datatype account_id_type = Account_id (inst: uint64_t)
datatype asset_id_type = Asset_id (inst: uint64_t)
datatype force_settlement_id_type = Force_settlement_id (inst: uint64_t)

record asset =
  amount :: share_type
  asset_id :: asset_id_type

record price =
  base :: asset
  quote :: asset

text \<open>
  \<^verbatim>\<open>extensions_type\<close> is a set of future extensions, whose only alternative today is
  the empty one.
\<close>

datatype future_extensions = void_t

type_synonym extensions_type = "future_extensions set"

section \<open>Errors\<close>

text \<open>
  A failed \<^verbatim>\<open>FC_ASSERT\<close> raises an exception, which leaves \<^verbatim>\<open>validate()\<close> at once. The
  specification calls this kind of failure \<^emph>\<open>invariant_violation\<close>; the other kind it
  knows, \<^emph>\<open>unknown_extension\<close>, belongs to deserialisation. A \<^verbatim>\<open>void\<close> function that
  may raise returns \<open>error + unit\<close>.
\<close>

datatype error = invariant_violation | unknown_extension

type_synonym check = "error + unit"

definition FC_ASSERT :: "bool \<Rightarrow> check" where
  "FC_ASSERT c = (if c then Inr () else Inl invariant_violation)"

text \<open>Sequencing of two statements: the second runs only if the first did not raise.\<close>

fun andthen :: "check \<Rightarrow> check \<Rightarrow> check" where
  "andthen (Inl e) _ = Inl e"
| "andthen (Inr _) c = c"

section \<open>The maker/taker extension of the asset options\<close>

record maker_asset_options_extension =
  is_maker_issued_asset :: bool
  maker_fee_percent :: uint16_t
  maker_reward_percent :: uint16_t
  maker_reward_asset :: "asset_id_type option"
  daily_reward_decay_rate :: uint16_t

text \<open>
  \<^verbatim>\<open>maker_asset_options_extension::validate()\<close>: three range checks in the order of the
  source, then the check that a maker-issued asset funds no reward.
\<close>

definition maker_asset_options_extension_validate :: "maker_asset_options_extension \<Rightarrow> check" where
  "maker_asset_options_extension_validate r =
     andthen (FC_ASSERT (daily_reward_decay_rate r \<le> 10000))
    (andthen (FC_ASSERT (maker_reward_percent r \<le> 10000))
    (andthen (FC_ASSERT (maker_fee_percent r \<le> 10000))
      (if is_maker_issued_asset r then FC_ASSERT (maker_reward_percent r = 0) else Inr ())))"

text \<open>
  The five invariants that the specification lists for the record, in its words; the
  last one asks for the reward asset whenever a reward is paid.
\<close>

definition spec_maker_invariants :: "maker_asset_options_extension \<Rightarrow> bool" where
  "spec_maker_invariants r \<longleftrightarrow>
     daily_reward_decay_rate r \<le> 10000 \<and>
     maker_reward_percent r \<le> 10000 \<and>
     maker_fee_percent r \<le> 10000 \<and>
     (is_maker_issued_asset r \<longrightarrow> maker_reward_percent r = 0) \<and>
     (0 < maker_reward_percent r \<longrightarrow> maker_reward_asset r \<noteq> None)"

text \<open>The four of them that \<^verbatim>\<open>validate()\<close> looks at.\<close>

definition maker_checked_invariants :: "maker_asset_options_extension \<Rightarrow> bool" where
  "maker_checked_invariants r \<longleftrightarrow>
     daily_reward_decay_rate r \<le> 10000 \<and>
     maker_reward_percent r \<le> 10000 \<and>
     maker_fee_percent r \<le> 10000 \<and>
     (is_maker_issued_asset r \<longrightarrow> maker_reward_percent r = 0)"

section \<open>Option records\<close>

text \<open>
  \<^verbatim>\<open>asset_options_extension\<close> is the tagged union
  \<^verbatim>\<open>static_variant<void_t, maker_asset_options_extension>\<close>; \<open>which\<close> is the tag of
  a value, the position of its alternative.
\<close>

datatype asset_options_extension =
  Empty_extension
  | Maker_extension maker_asset_options_extension

fun which :: "asset_options_extension \<Rightarrow> nat" where
  "which Empty_extension = 0"
| "which (Maker_extension _) = 1"

text \<open>
  \<^verbatim>\<open>asset_options_extensions_type\<close> is kept as the sequence of its elements, in the
  order of the wire, so that two elements of one tag can be told from one.
\<close>

type_synonym asset_options_extensions_type = "asset_options_extension list"

record asset_options =
  max_supply :: share_type
  market_fee_percent :: uint16_t
  max_market_fee :: share_type
  issuer_permissions :: uint16_t
  flags :: uint16_t
  core_exchange_rate :: price
  whitelist_authorities :: "account_id_type set"
  blacklist_authorities :: "account_id_type set"
  whitelist_markets :: "asset_id_type set"
  blacklist_markets :: "asset_id_type set"
  description :: string
  extensions :: asset_options_extensions_type

record bitasset_options =
  feed_lifetime_sec :: uint32_t
  minimum_feeds :: uint8_t
  force_settlement_delay_sec :: uint32_t
  force_settlement_offset_percent :: uint16_t
  maximum_force_settlement_volume :: uint16_t
  short_backing_asset :: asset_id_type
  extensions :: extensions_type

section \<open>Operation records\<close>

text \<open>
  Each operation is a record of its fields, in the order of the struct, with its
  \<^verbatim>\<open>fee_parameters_type\<close> beside it. Field names that several structs share are
  written with the name of their record in front. The types \<^verbatim>\<open>price_feed\<close> and
  \<^verbatim>\<open>memo_data\<close> are declared in other headers; the two operations that carry them
  take them as a type parameter.
\<close>

record asset_create_operation_fee_parameters_type =
  symbol3 :: uint64_t
  symbol4 :: uint64_t
  long_symbol :: uint64_t
  price_per_kbyte :: uint32_t

record asset_create_operation =
  fee :: asset
  issuer :: account_id_type
  symbol :: string
  precision :: uint8_t
  common_options :: asset_options
  bitasset_opts :: "bitasset_options option"
  is_prediction_market :: bool
  extensions :: extensions_type

record asset_global_settle_operation_fee_parameters_type =
  fee :: uint64_t

record asset_global_settle_operation =
  fee :: asset
  issuer :: account_id_type
  asset_to_settle :: asset_id_type
  settle_price :: price
  extensions :: extensions_type

record asset_settle_operation_fee_parameters_type =
  fee :: uint64_t

record asset_settle_operation =
  fee :: asset
  account :: account_id_type
  amount :: asset
  extensions :: extensions_type

text \<open>The \<^verbatim>\<open>fee_parameters_type\<close> of the virtual operation has no field.\<close>

type_synonym asset_settle_cancel_operation_fee_parameters_type = unit

record asset_settle_cancel_operation =
  fee :: asset
  settlement :: force_settlement_id_type
  account :: account_id_type
  amount :: asset
  extensions :: extensions_type

record asset_fund_fee_pool_operation_fee_parameters_type =
  fee :: uint64_t

record asset_fund_fee_pool_operation =
  fee :: asset
  from_account :: account_id_type
  asset_id :: asset_id_type
  amount :: share_type
  extensions :: extensions_type

record asset_update_operation_fee_parameters_type =
  fee :: uint64_t
  price_per_kbyte :: uint32_t

record asset_update_operation =
  fee :: asset
  issuer :: account_id_type
  asset_to_update :: asset_id_type
  new_issuer :: "account_id_type option"
  new_options :: asset_options
  extensions :: extensions_type

record asset_update_bitasset_operation_fee_parameters_type =
  fee :: uint64_t

record asset_update_bitasset_operation =
  fee :: asset
  issuer :: account_id_type
  asset_to_update :: asset_id_type
  new_options :: bitasset_options
  extensions :: extensions_type

record asset_update_feed_producers_operation_fee_parameters_type =
  fee :: uint64_t

record asset_update_feed_producers_operation =
  fee :: asset
  issuer :: account_id_type
  asset_to_update :: asset_id_type
  new_feed_producers :: "account_id_type set"
  extensions :: extensions_type

record asset_publish_feed_operation_fee_parameters_type =
  fee :: uint64_t

record 'price_feed asset_publish_feed_operation =
  fee :: asset
  publisher :: account_id_type
  asset_id :: asset_id_type
  feed :: 'price_feed
  extensions :: extensions_type

record asset_issue_operation_fee_parameters_type =
  fee :: uint64_t
  price_per_kbyte :: uint32_t

record 'memo_data asset_issue_operation =
  fee :: asset
  issuer :: account_id_type
  asset_to_issue :: asset
  issue_to_account :: account_id_type
  memo :: "'memo_data option"
  extensions :: extensions_type

record asset_reserve_operation_fee_parameters_type =
  fee :: uint64_t

record asset_reserve_operation =
  fee :: asset
  payer :: account_id_type
  amount_to_reserve :: asset
  extensions :: extensions_type

section \<open>Fee payers\<close>

text \<open>The accessor \<^verbatim>\<open>fee_payer()\<close> of each operation, as the struct defines it.\<close>

definition asset_create_operation_fee_payer :: "asset_create_operation \<Rightarrow> account_id_type" where
  "asset_create_operation_fee_payer r = asset_create_operation.issuer r"

definition asset_global_settle_operation_fee_payer :: "asset_global_settle_operation \<Rightarrow> account_id_type" where
  "asset_global_settle_operation_fee_payer r = asset_global_settle_operation.issuer r"

definition asset_settle_operation_fee_payer :: "asset_settle_operation \<Rightarrow> account_id_type" where
  "asset_settle_operation_fee_payer r = asset_settle_operation.account r"

definition asset_settle_cancel_operation_fee_payer :: "asset_settle_cancel_operation \<Rightarrow> account_id_type" where
  "asset_settle_cancel_operation_fee_payer r = asset_settle_cancel_operation.account r"

definition asset_fund_fee_pool_operation_fee_payer :: "asset_fund_fee_pool_operation \<Rightarrow> account_id_type" where
  "asset_fund_fee_pool_operation_fee_payer r = asset_fund_fee_pool_operation.from_account r"

definition asset_update_operation_fee_payer :: "asset_update_operation \<Rightarrow> account_id_type" where
  "asset_update_operation_fee_payer r = asset_update_operation.issuer r"

definition asset_update_bitasset_operation_fee_payer :: "asset_update_bitasset_operation \<Rightarrow> account_id_type" where
  "asset_update_bitasset_operation_fee_payer r = asset_update_bitasset_operation.issuer r"

definition asset_update_feed_producers_operation_fee_payer ::
    "asset_update_feed_producers_operation \<Rightarrow> account_id_type" where
  "asset_update_feed_producers_operation_fee_payer r = asset_update_feed_producers_operation.issuer r"

definition asset_publish_feed_operation_fee_payer ::
    "'price_feed asset_publish_feed_operation \<Rightarrow> account_id_type" where
  "asset_publish_feed_operation_fee_payer r = asset_publish_feed_operation.publisher r"

definition asset_issue_operation_fee_payer :: "'memo_data asset_issue_operation \<Rightarrow> account_id_type" where
  "asset_issue_operation_fee_payer r = asset_issue_operation.issuer r"

definition asset_reserve_operation_fee_payer :: "asset_reserve_operation \<Rightarrow> account_id_type" where
  "asset_reserve_operation_fee_payer r = asset_reserve_operation.payer r"

section \<open>The virtual operation asset_settle_cancel\<close>

text \<open>
  \<^verbatim>\<open>validate()\<close> has an empty body and \<^verbatim>\<open>calculate_fee\<close> returns the constant 0; neither
  reads the record or the parameters.
\<close>

definition asset_settle_cancel_operation_validate :: "asset_settle_cancel_operation \<Rightarrow> check" where
  "asset_settle_cancel_operation_validate r = Inr ()"

definition asset_settle_cancel_operation_calculate_fee ::
    "asset_settle_cancel_operation \<Rightarrow> asset_settle_cancel_operation_fee_parameters_type \<Rightarrow> share_type" where
  "asset_settle_cancel_operation_calculate_fee r params = 0"

section \<open>Default fee parameters\<close>

text \<open>
  The default member initialisers of each \<^verbatim>\<open>fee_parameters_type\<close>. The macro
  \<^verbatim>\<open>GRAPHENE_BLOCKCHAIN_PRECISION\<close> is defined in a configuration header that is not
  among the sources at hand, so the default-constructed value is a function of it; it
  is an unsigned 64-bit quantity, and the products are 64-bit products. Where the
  initialised member is a \<^verbatim>\<open>uint32_t\<close>, the value is narrowed to 32 bits.
\<close>

definition asset_create_operation_fee_parameters_default ::
    "uint64_t \<Rightarrow> asset_create_operation_fee_parameters_type" where
  "asset_create_operation_fee_parameters_default GRAPHENE_BLOCKCHAIN_PRECISION =
     \<lparr>symbol3 = 500000 * GRAPHENE_BLOCKCHAIN_PRECISION,
      symbol4 = 300000 * GRAPHENE_BLOCKCHAIN_PRECISION,
      long_symbol = 5000 * GRAPHENE_BLOCKCHAIN_PRECISION,
      asset_create_operation_fee_parameters_type.price_per_kbyte = 10\<rparr>"

definition asset_global_settle_operation_fee_parameters_default ::
    "uint64_t \<Rightarrow> asset_global_settle_operation_fee_parameters_type" where
  "asset_global_settle_operation_fee_parameters_default GRAPHENE_BLOCKCHAIN_PRECISION =
     \<lparr>asset_global_settle_operation_fee_parameters_type.fee = 500 * GRAPHENE_BLOCKCHAIN_PRECISION\<rparr>"

definition asset_settle_operation_fee_parameters_default ::
    "uint64_t \<Rightarrow> asset_settle_operation_fee_parameters_type" where
  "asset_settle_operation_fee_parameters_default GRAPHENE_BLOCKCHAIN_PRECISION =
     \<lparr>asset_settle_operation_fee_parameters_type.fee = 100 * GRAPHENE_BLOCKCHAIN_PRECISION\<rparr>"

definition asset_fund_fee_pool_operation_fee_parameters_default ::
    "uint64_t \<Rightarrow> asset_fund_fee_pool_operation_fee_parameters_type" where
  "asset_fund_fee_pool_operation_fee_parameters_default GRAPHENE_BLOCKCHAIN_PRECISION =
     \<lparr>asset_fund_fee_pool_operation_fee_parameters_type.fee = GRAPHENE_BLOCKCHAIN_PRECISION\<rparr>"

definition asset_update_operation_fee_parameters_default ::
    "uint64_t \<Rightarrow> asset_update_operation_fee_parameters_type" where
  "asset_update_operation_fee_parameters_default GRAPHENE_BLOCKCHAIN_PRECISION =
     \<lparr>asset_update_operation_fee_parameters_type.fee = 500 * GRAPHENE_BLOCKCHAIN_PRECISION,
      asset_update_operation_fee_parameters_type.price_per_kbyte = 10\<rparr>"

definition asset_update_bitasset_operation_fee_parameters_default ::
    "uint64_t \<Rightarrow> asset_update_bitasset_operation_fee_parameters_type" where
  "asset_update_bitasset_operation_fee_parameters_default GRAPHENE_BLOCKCHAIN_PRECISION =
     \<lparr>asset_update_bitasset_operation_fee_parameters_type.fee = 500 * GRAPHENE_BLOCKCHAIN_PRECISION\<rparr>"

definition asset_update_feed_producers_operation_fee_parameters_default ::
    "uint64_t \<Rightarrow> asset_update_feed_producers_operation_fee_parameters_type" where
  "asset_update_feed_producers_operation_fee_parameters_default GRAPHENE_BLOCKCHAIN_PRECISION =
     \<lparr>asset_update_feed_producers_operation_fee_parameters_type.fee = 500 * GRAPHENE_BLOCKCHAIN_PRECISION\<rparr>"

definition asset_publish_feed_operation_fee_parameters_default ::
    "uint64_t \<Rightarrow> asset_publish_feed_operation_fee_parameters_type" where
  "asset_publish_feed_operation_fee_parameters_default GRAPHENE_BLOCKCHAIN_PRECISION =
     \<lparr>asset_publish_feed_operation_fee_parameters_type.fee = GRAPHENE_BLOCKCHAIN_PRECISION\<rparr>"

definition asset_issue_operation_fee_parameters_default ::
    "uint64_t \<Rightarrow> asset_issue_operation_fee_parameters_type" where
  "asset_issue_operation_fee_parameters_default GRAPHENE_BLOCKCHAIN_PRECISION =
     \<lparr>asset_issue_operation_fee_parameters_type.fee = 20 * GRAPHENE_BLOCKCHAIN_PRECISION,
      asset_issue_operation_fee_parameters_type.price_per_kbyte = ucast GRAPHENE_BLOCKCHAIN_PRECISION\<rparr>"

definition asset_reserve_operation_fee_parameters_default ::
    "uint64_t \<Rightarrow> asset_reserve_operation_fee_parameters_type" where
  "asset_reserve_operation_fee_parameters_default GRAPHENE_BLOCKCHAIN_PRECISION =
     \<lparr>asset_reserve_operation_fee_parameters_type.fee = 20 * GRAPHENE_BLOCKCHAIN_PRECISION\<rparr>"

section \<open>Registered field orders\<close>

text \<open>
  Each \<^verbatim>\<open>FC_REFLECT\<close> registers the members of a struct for serialisation, in the order in
  which they are written; the registration is the list of the member names.
\<close>

definition asset_options_reflect :: "string list" where
  "asset_options_reflect =
     [''max_supply'', ''market_fee_percent'', ''max_market_fee'', ''issuer_permissions'', ''flags'',
      ''core_exchange_rate'', ''whitelist_authorities'', ''blacklist_authorities'',
      ''whitelist_markets'', ''blacklist_markets'', ''description'', ''extensions'']"

definition bitasset_options_reflect :: "string list" where
  "bitasset_options_reflect =
     [''feed_lifetime_sec'', ''minimum_feeds'', ''force_settlement_delay_sec'',
      ''force_settlement_offset_percent'', ''maximum_force_settlement_volume'',
      ''short_backing_asset'', ''extensions'']"

definition maker_asset_options_extension_reflect :: "string list" where
  "maker_asset_options_extension_reflect =
     [''is_maker_issued_asset'', ''maker_fee_percent'', ''maker_reward_percent'',
      ''maker_reward_asset'', ''daily_reward_decay_rate'']"

definition asset_create_operation_reflect :: "string list" where
  "asset_create_operation_reflect =
     [''fee'', ''issuer'', ''symbol'', ''precision'', ''common_options'', ''bitasset_opts'',
      ''is_prediction_market'', ''extensions'']"

definition asset_update_operation_reflect :: "string list" where
  "asset_update_operation_reflect =
     [''fee'', ''issuer'', ''asset_to_update'', ''new_issuer'', ''new_options'', ''extensions'']"

definition asset_update_bitasset_operation_reflect :: "string list" where
  "asset_update_bitasset_operation_reflect =
     [''fee'', ''issuer'', ''asset_to_update'', ''new_options'', ''extensions'']"

definition asset_update_feed_producers_operation_reflect :: "string list" where
  "asset_update_feed_producers_operation_reflect =
     [''fee'', ''issuer'', ''asset_to_update'', ''new_feed_producers'', ''extensions'']"

definition asset_publish_feed_operation_reflect :: "string list" where
  "asset_publish_feed_operation_reflect =
     [''fee'', ''publisher'', ''asset_id'', ''feed'', ''extensions'']"

definition asset_settle_operation_reflect :: "string list" where
  "asset_settle_operation_reflect = [''fee'', ''account'', ''amount'', ''extensions'']"

definition asset_settle_cancel_operation_reflect :: "string list" where
  "asset_settle_cancel_operation_reflect =
     [''fee'', ''settlement'', ''account'', ''amount'', ''extensions'']"

definition asset_global_settle_operation_reflect :: "string list" where
  "asset_global_settle_operation_reflect =
     [''fee'', ''issuer'', ''asset_to_settle'', ''settle_price'', ''extensions'']"

definition asset_issue_operation_reflect :: "string list" where
  "asset_issue_operation_reflect =
     [''fee'', ''issuer'', ''asset_to_issue'', ''issue_to_account'', ''memo'', ''extensions'']"

definition asset_reserve_operation_reflect :: "string list" where
  "asset_reserve_operation_reflect = [''fee'', ''payer'', ''amount_to_reserve'', ''extensions'']"

definition asset_fund_fee_pool_operation_reflect :: "string list" where
  "asset_fund_fee_pool_operation_reflect =
     [''fee'', ''from_account'', ''asset_id'', ''amount'', ''extensions'']"

text \<open>
  The field orders that the specification declares: the operation lists of its external
  interfaces, the tables of \<open>asset_options\<close> and \<open>bitasset_options\<close> in its data model,
  and the order it gives for the maker extension. The registrations above are compared
  with these.
\<close>

definition spec_field_order :: "string \<Rightarrow> string list" where
  "spec_field_order record_name =
    (if record_name = ''asset_create'' then
       [''fee'', ''issuer'', ''symbol'', ''precision'', ''common_options'', ''bitasset_opts'',
        ''is_prediction_market'', ''extensions'']
     else if record_name = ''asset_update'' then
       [''fee'', ''issuer'', ''asset_to_update'', ''new_issuer'', ''new_options'', ''extensions'']
     else if record_name = ''asset_update_bitasset'' then
       [''fee'', ''issuer'', ''asset_to_update'', ''new_options'', ''extensions'']
     else if record_name = ''asset_update_feed_producers'' then
       [''fee'', ''issuer'', ''asset_to_update'', ''new_feed_producers'', ''extensions'']
     else if record_name = ''asset_publish_feed'' then
       [''fee'', ''publisher'', ''asset_id'', ''feed'', ''extensions'']
     else if record_name = ''asset_settle'' then
       [''fee'', ''account'', ''amount'', ''extensions'']
     else if record_name = ''asset_settle_cancel'' then
       [''fee'', ''settlement'', ''account'', ''amount'', ''extensions'']
     else if record_name = ''asset_global_settle'' then
       [''fee'', ''issuer'', ''asset_to_settle'', ''settle_price'', ''extensions'']
     else if record_name = ''asset_issue'' then
       [''fee'', ''issuer'', ''asset_to_issue'', ''issue_to_account'', ''memo'', ''extensions'']
     else if record_name = ''asset_reserve'' then
       [''fee'', ''payer'', ''amount_to_reserve'', ''extensions'']
     else if record_name = ''asset_fund_fee_pool'' then
       [''fee'', ''from_account'', ''asset_id'', ''amount'', ''extensions'']
     else if record_name = ''asset_options'' then
       [''max_supply'', ''market_fee_percent'', ''max_market_fee'', ''issuer_permissions'',
        ''flags'', ''core_exchange_rate'', ''whitelist_authorities'', ''blacklist_authorities'',
        ''whitelist_markets'', ''blacklist_markets'', ''description'', ''extensions'']
     else if record_name = ''bitasset_options'' then
       [''feed_lifetime_sec'', ''minimum_feeds'', ''force_settlement_delay_sec'',
        ''force_settlement_offset_percent'', ''maximum_force_settlement_volume'',
        ''short_backing_asset'', ''extensions'']
     else if record_name = ''maker_asset_options_extension'' then
       [''is_maker_issued_asset'', ''maker_fee_percent'', ''maker_reward_percent'',
        ''maker_reward_asset'', ''daily_reward_decay_rate'']
     else [])"

section \<open>Constants of the protocol\<close>

text \<open>
  Modelled from the spec: the constants \<open>MAX_SHARE_SUPPLY\<close>,
  \<open>UIA_ASSET_ISSUER_PERMISSION_MASK\<close>, the flag bit \<open>MARKET_ISSUED\<close> and the floor
  \<open>minimum_feed_reliability_window\<close> are named by the specification and defined in
  headers that are not among the sources at hand. The validation functions take them
  as a parameter.
\<close>

record protocol_constants =
  MAX_SHARE_SUPPLY :: share_type
  UIA_ASSET_ISSUER_PERMISSION_MASK :: uint16_t
  MARKET_ISSUED :: uint16_t
  minimum_feed_reliability_window :: uint32_t

section \<open>Symbol validation\<close>

text \<open>The character classes \<open>[A-Z]\<close> and \<open>[0-9]\<close> of ASCII, by character code.\<close>

definition is_upper :: "char \<Rightarrow> bool" where
  "is_upper c \<longleftrightarrow>
     (of_char (CHR ''A'') :: nat) \<le> of_char c \<and> (of_char c :: nat) \<le> of_char (CHR ''Z'')"

definition is_digit :: "char \<Rightarrow> bool" where
  "is_digit c \<longleftrightarrow>
     (of_char (CHR ''0'') :: nat) \<le> of_char c \<and> (of_char c :: nat) \<le> of_char (CHR ''9'')"

definition is_symbol_char :: "char \<Rightarrow> bool" where
  "is_symbol_char c \<longleftrightarrow> is_upper c \<or> is_digit c \<or> c = CHR ''.''"

fun adjacent_dots :: "string \<Rightarrow> bool" where
  "adjacent_dots (a # b # cs) \<longleftrightarrow> (a = CHR ''.'' \<and> b = CHR ''.'') \<or> adjacent_dots (b # cs)"
| "adjacent_dots _ \<longleftrightarrow> False"

text \<open>
  Modelled from the spec: \<^verbatim>\<open>is_valid_symbol\<close> is declared in the header and defined in a
  source file that is not at hand. The specification gives five rules: the length is
  between 3 and 16, the first and the last character are in \<open>[A-Z]\<close>, every character is
  in \<open>[A-Z0-9.]\<close>, at most one dot appears, and no two dots are adjacent.
\<close>

definition is_valid_symbol :: "string \<Rightarrow> bool" where
  "is_valid_symbol symb \<longleftrightarrow>
     3 \<le> length symb \<and> length symb \<le> 16 \<and>
     is_upper (hd symb) \<and> is_upper (last symb) \<and>
     list_all is_symbol_char symb \<and>
     count_list symb (CHR ''.'') \<le> 1 \<and>
     \<not> adjacent_dots symb"

section \<open>Validation of the option records\<close>

text \<open>
  Modelled from the spec: \<^verbatim>\<open>price::validate\<close> belongs to a header that is not at hand.
  The specification asks for a positive amount on both legs and for two different
  asset ids.
\<close>

definition price_validate :: "price \<Rightarrow> check" where
  "price_validate p =
     andthen (FC_ASSERT (0 < asset.amount (base p)))
    (andthen (FC_ASSERT (0 < asset.amount (quote p)))
      (FC_ASSERT (asset.asset_id (base p) \<noteq> asset.asset_id (quote p))))"

text \<open>
  An extension validates in isolation: the empty alternative has nothing to check, the
  maker extension runs its own \<^verbatim>\<open>validate()\<close>.
\<close>

fun asset_options_extension_validate :: "asset_options_extension \<Rightarrow> check" where
  "asset_options_extension_validate Empty_extension = Inr ()"
| "asset_options_extension_validate (Maker_extension m) = maker_asset_options_extension_validate m"

fun asset_options_extensions_validate :: "asset_options_extensions_type \<Rightarrow> check" where
  "asset_options_extensions_validate [] = Inr ()"
| "asset_options_extensions_validate (e # es) =
     andthen (asset_options_extension_validate e) (asset_options_extensions_validate es)"

text \<open>
  Modelled from the spec: \<^verbatim>\<open>asset_options::validate\<close> is declared in the header and
  defined in a source file that is not at hand. The specification lists nine reasons
  to fail, checked here in its order. The seventh, a duplicate in
  \<open>whitelist_authorities\<close> or \<open>blacklist_authorities\<close>, is excluded by the type of the
  two fields: a set holds no element twice.
\<close>

definition asset_options_validate :: "protocol_constants \<Rightarrow> asset_options \<Rightarrow> check" where
  "asset_options_validate k opts =
     andthen (FC_ASSERT (0 < max_supply opts \<and> max_supply opts \<le> MAX_SHARE_SUPPLY k))
    (andthen (FC_ASSERT (market_fee_percent opts \<le> 10000))
    (andthen (FC_ASSERT (0 \<le> max_market_fee opts \<and> max_market_fee opts \<le> MAX_SHARE_SUPPLY k))
    (andthen (FC_ASSERT (flags opts AND NOT (issuer_permissions opts) = 0))
    (andthen (FC_ASSERT (issuer_permissions opts AND NOT (UIA_ASSET_ISSUER_PERMISSION_MASK k) = 0))
    (andthen (FC_ASSERT (whitelist_markets opts \<inter> blacklist_markets opts = {}))
    (andthen (price_validate (core_exchange_rate opts))
    (andthen (asset_options_extensions_validate (asset_options.extensions opts))
      (FC_ASSERT (distinct (map which (asset_options.extensions opts)))))))))))"

text \<open>
  Modelled from the spec: \<^verbatim>\<open>bitasset_options::validate\<close> is declared in the header and
  defined in a source file that is not at hand. It fails if the feed lifetime is below
  the global floor, if no feed is required, or if one of the two percentages exceeds
  10000.
\<close>

definition bitasset_options_validate :: "protocol_constants \<Rightarrow> bitasset_options \<Rightarrow> check" where
  "bitasset_options_validate k opts =
     andthen (FC_ASSERT (\<not> feed_lifetime_sec opts < minimum_feed_reliability_window k))
    (andthen (FC_ASSERT (minimum_feeds opts \<noteq> 0))
    (andthen (FC_ASSERT (force_settlement_offset_percent opts \<le> 10000))
      (FC_ASSERT (maximum_force_settlement_volume opts \<le> 10000))))"

section \<open>Validation of asset_create\<close>

text \<open>
  Modelled from the spec: \<^verbatim>\<open>asset_create_operation::validate\<close> is declared in the header
  and defined in a source file that is not at hand. The specification asks for a
  non-negative fee, a valid symbol, a precision of at most 12, valid common options,
  \<open>bitasset_opts\<close> present and valid if the \<open>MARKET_ISSUED\<close> bit of the flags is set and
  absent otherwise, and \<open>bitasset_opts\<close> present for a prediction market.
\<close>

definition asset_create_operation_validate ::
    "protocol_constants \<Rightarrow> asset_create_operation \<Rightarrow> check" where
  "asset_create_operation_validate k r =
     andthen (FC_ASSERT (0 \<le> asset.amount (asset_create_operation.fee r)))
    (andthen (FC_ASSERT (is_valid_symbol (symbol r)))
    (andthen (FC_ASSERT (precision r \<le> 12))
    (andthen (asset_options_validate k (common_options r))
    (andthen
      (if flags (common_options r) AND MARKET_ISSUED k \<noteq> 0
       then (case bitasset_opts r of
               None \<Rightarrow> Inl invariant_violation
             | Some b \<Rightarrow> bitasset_options_validate k b)
       else FC_ASSERT (bitasset_opts r = None))
      (if is_prediction_market r then FC_ASSERT (bitasset_opts r \<noteq> None) else Inr ())))))"

section \<open>Fee computation\<close>

text \<open>The number of kilobytes that a payload of \<open>n\<close> bytes takes: \<open>n / 1024\<close>, rounded up.\<close>

definition kbytes :: "nat \<Rightarrow> nat" where
  "kbytes n = (n + 1023) div 1024"


text \<open>
  The same formula as it is computed: the parameters are unsigned machine integers, the
  sum and the product are taken in 64 bits and wrap around, and the result is a
  \<^verbatim>\<open>share_type\<close>, the signed reading of the 64 bits.
\<close>

definition fee_with_surcharge :: "uint64_t \<Rightarrow> uint32_t \<Rightarrow> nat \<Rightarrow> share_type" where
  "fee_with_surcharge base_fee per_kbyte n =
     sint (base_fee + ucast per_kbyte * word_of_nat (kbytes n) :: uint64_t)"

text \<open>The base fee of \<open>asset_create\<close> depends on the length of the symbol.\<close>

definition asset_create_operation_base_fee ::
    "asset_create_operation \<Rightarrow> asset_create_operation_fee_parameters_type \<Rightarrow> uint64_t" where
  "asset_create_operation_base_fee r k =
     (if length (symbol r) = 3 then symbol3 k
      else if length (symbol r) = 4 then symbol4 k
      else long_symbol k)"

definition size_of_memo :: "('memo_data \<Rightarrow> nat) \<Rightarrow> 'memo_data option \<Rightarrow> nat" where
  "size_of_memo pack_size m = (case m of None \<Rightarrow> 0 | Some d \<Rightarrow> pack_size d)"

text \<open>
  Modelled from the spec: the bodies of \<^verbatim>\<open>calculate_fee\<close> of \<open>asset_create\<close>,
  \<open>asset_update\<close> and \<open>asset_issue\<close> are in a source file that is not at hand. The
  specification gives each fee as a base fee plus \<open>price_per_kbyte\<close> times the number of
  kilobytes of the payload; the header gives the types: the parameters are the
  \<^verbatim>\<open>uint64_t\<close> and \<^verbatim>\<open>uint32_t\<close> members of \<^verbatim>\<open>fee_parameters_type\<close>, the result is a
  \<^verbatim>\<open>share_type\<close>. The payload of \<open>asset_create\<close> and of \<open>asset_update\<close> is the
  description, counted in bytes. The payload of \<open>asset_issue\<close> is the serialised memo, 0
  bytes if absent; the size of a serialised memo is a parameter, since \<^verbatim>\<open>memo_data\<close> and
  its serialisation are declared elsewhere.
\<close>

definition asset_create_operation_calculate_fee ::
    "asset_create_operation \<Rightarrow> asset_create_operation_fee_parameters_type \<Rightarrow> share_type" where
  "asset_create_operation_calculate_fee r k =
     fee_with_surcharge (asset_create_operation_base_fee r k)
       (asset_create_operation_fee_parameters_type.price_per_kbyte k)
       (length (description (common_options r)))"


definition asset_issue_operation_calculate_fee ::
    "('memo_data \<Rightarrow> nat) \<Rightarrow> 'memo_data asset_issue_operation
       \<Rightarrow> asset_issue_operation_fee_parameters_type \<Rightarrow> share_type" where
  "asset_issue_operation_calculate_fee pack_size r k =
     fee_with_surcharge (asset_issue_operation_fee_parameters_type.fee k)
       (asset_issue_operation_fee_parameters_type.price_per_kbyte k)
       (size_of_memo pack_size (memo r))"




section \<open>Scenarios\<close>

text \<open>
  Concrete records on which the functions are run. The constants of the protocol are
  given example values, with the \<open>MARKET_ISSUED\<close> bit inside the permission mask. The
  first record is the short-symbol asset of the specification's scenarios: symbol
  \<open>BTS\<close>, precision 5, a maximal supply of \<open>10^15\<close>, an exchange rate of one core unit
  for one unit of the new asset (instance 1), no \<open>bitasset_opts\<close>.
\<close>

definition scenario_constants :: protocol_constants where
  "scenario_constants =
     \<lparr>MAX_SHARE_SUPPLY = 1000000000000000, UIA_ASSET_ISSUER_PERMISSION_MASK = 0x7F,
      MARKET_ISSUED = 0x40, minimum_feed_reliability_window = 60\<rparr>"

definition scenario_options :: asset_options where
  "scenario_options =
     \<lparr>max_supply = 1000000000000000, market_fee_percent = 0,
      max_market_fee = 1000000000000000, issuer_permissions = 0x7F, flags = 0,
      core_exchange_rate =
        \<lparr>base = \<lparr>asset.amount = 1, asset.asset_id = Asset_id 0\<rparr>,
         quote = \<lparr>asset.amount = 1, asset.asset_id = Asset_id 1\<rparr>\<rparr>,
      whitelist_authorities = {}, blacklist_authorities = {},
      whitelist_markets = {}, blacklist_markets = {},
      description = [], asset_options.extensions = []\<rparr>"

text \<open>The same options with one asset on both market lists.\<close>

definition overlap_options :: asset_options where
  "overlap_options =
     scenario_options\<lparr>whitelist_markets := {Asset_id 7},
                      blacklist_markets := {Asset_id 7, Asset_id 8}\<rparr>"

definition scenario_bitasset_options :: bitasset_options where
  "scenario_bitasset_options =
     \<lparr>feed_lifetime_sec = 86400, minimum_feeds = 1, force_settlement_delay_sec = 86400,
      force_settlement_offset_percent = 0, maximum_force_settlement_volume = 2000,
      short_backing_asset = Asset_id 0, bitasset_options.extensions = {}\<rparr>"

definition scenario_create :: asset_create_operation where
  "scenario_create =
     \<lparr>asset_create_operation.fee = \<lparr>asset.amount = 0, asset.asset_id = Asset_id 0\<rparr>,
      asset_create_operation.issuer = Account_id 17, symbol = ''BTS'', precision = 5,
      common_options = scenario_options, bitasset_opts = None,
      is_prediction_market = False, asset_create_operation.extensions = {}\<rparr>"

text \<open>The same operation with the \<open>MARKET_ISSUED\<close> flag set, without and with \<open>bitasset_opts\<close>.\<close>

definition scenario_create_flagged :: asset_create_operation where
  "scenario_create_flagged =
     scenario_create\<lparr>common_options :=
       scenario_options\<lparr>flags := flags scenario_options OR MARKET_ISSUED scenario_constants\<rparr>\<rparr>"

definition scenario_create_bitasset :: asset_create_operation where
  "scenario_create_bitasset =
     scenario_create_flagged\<lparr>bitasset_opts := Some scenario_bitasset_options\<rparr>"






section \<open>Basic facts about checks\<close>

lemma FC_ASSERT_Inr [simp]: "FC_ASSERT c = Inr u \<longleftrightarrow> c"
  by (simp add: FC_ASSERT_def)

lemma FC_ASSERT_Inl [simp]: "FC_ASSERT c = Inl e \<longleftrightarrow> \<not> c \<and> e = invariant_violation"
  by (auto simp: FC_ASSERT_def)

lemma andthen_Inr [simp]: "andthen a b = Inr u \<longleftrightarrow> a = Inr () \<and> b = Inr ()"
  by (cases a; cases b) auto

lemma andthen_Inl: "andthen a b = Inl e \<longleftrightarrow> a = Inl e \<or> (a = Inr () \<and> b = Inl e)"
  by (cases a) auto

text \<open>A check that can only raise \<open>invariant_violation\<close> is decided by its success.\<close>

definition only_invariant_violation :: "check \<Rightarrow> bool" where
  "only_invariant_violation c \<longleftrightarrow> c = Inr () \<or> c = Inl invariant_violation"

lemma only_iv_FC_ASSERT [simp]: "only_invariant_violation (FC_ASSERT c)"
  by (simp add: only_invariant_violation_def FC_ASSERT_def)

lemma only_iv_Inr [simp]: "only_invariant_violation (Inr u)"
  by (simp add: only_invariant_violation_def)

lemma only_iv_andthen [simp]:
  "only_invariant_violation a \<Longrightarrow> only_invariant_violation b \<Longrightarrow> only_invariant_violation (andthen a b)"
  by (auto simp: only_invariant_violation_def)

lemma only_iv_if [simp]:
  "only_invariant_violation a \<Longrightarrow> only_invariant_violation b \<Longrightarrow> only_invariant_violation (if c then a else b)"
  by simp

lemma only_iv_fails: "only_invariant_violation c \<Longrightarrow> c \<noteq> Inr () \<Longrightarrow> c = Inl invariant_violation"
  by (auto simp: only_invariant_violation_def)

section \<open>Validation of the maker/taker extension\<close>

lemma maker_validate_only_iv: "only_invariant_violation (maker_asset_options_extension_validate r)"
  by (simp add: maker_asset_options_extension_validate_def)

lemma maker_validate_succeeds:
  "maker_asset_options_extension_validate r = Inr () \<longleftrightarrow> maker_checked_invariants r"
  by (auto simp: maker_asset_options_extension_validate_def maker_checked_invariants_def)

text \<open>
  Claim C1, as the specification states it: \<^verbatim>\<open>validate()\<close> succeeds if and only if all
  five invariants hold. The source does not look at \<open>maker_reward_asset\<close>: a record that
  pays a reward of 500 without naming a reward asset passes \<^verbatim>\<open>validate()\<close>, although the
  fifth invariant fails on it.
\<close>

theorem maker_validate_reward_asset_counterexample:
  "maker_asset_options_extension_validate
     \<lparr>is_maker_issued_asset = False, maker_fee_percent = 0, maker_reward_percent = 500,
      maker_reward_asset = None, daily_reward_decay_rate = 200\<rparr> = Inr ()
   \<and> \<not> spec_maker_invariants
     \<lparr>is_maker_issued_asset = False, maker_fee_percent = 0, maker_reward_percent = 500,
      maker_reward_asset = None, daily_reward_decay_rate = 200\<rparr>"
  by (simp add: maker_asset_options_extension_validate_def spec_maker_invariants_def)

text \<open>
  Claim C1, amended: \<^verbatim>\<open>validate()\<close> succeeds if and only if the three percentages are
  at most 10000 and a maker-issued asset has a reward percentage of 0; whenever one of
  these four conditions is violated it fails with \<open>invariant_violation\<close>; and every
  record with \<open>is_maker_issued_asset\<close> set and a positive \<open>maker_reward_percent\<close> fails
  with \<open>invariant_violation\<close>.
\<close>

theorem maker_validate_checks:
  "(maker_asset_options_extension_validate r = Inr () \<longleftrightarrow>
      daily_reward_decay_rate r \<le> 10000 \<and> maker_reward_percent r \<le> 10000 \<and>
      maker_fee_percent r \<le> 10000 \<and>
      (is_maker_issued_asset r \<longrightarrow> maker_reward_percent r = 0))
   \<and> (\<not> (daily_reward_decay_rate r \<le> 10000 \<and> maker_reward_percent r \<le> 10000 \<and>
          maker_fee_percent r \<le> 10000 \<and>
          (is_maker_issued_asset r \<longrightarrow> maker_reward_percent r = 0))
        \<longrightarrow> maker_asset_options_extension_validate r = Inl invariant_violation)
   \<and> (is_maker_issued_asset r \<and> 0 < maker_reward_percent r
        \<longrightarrow> maker_asset_options_extension_validate r = Inl invariant_violation)"
proof -
  have ok: "maker_asset_options_extension_validate r = Inr () \<longleftrightarrow> maker_checked_invariants r"
    by (rule maker_validate_succeeds)
  have bad: "maker_asset_options_extension_validate r = Inl invariant_violation"
    if "\<not> maker_checked_invariants r"
    using that ok only_iv_fails [OF maker_validate_only_iv [of r]] by blast
  have contra: "\<not> maker_checked_invariants r"
    if "is_maker_issued_asset r" "0 < maker_reward_percent r"
    using that by (auto simp: maker_checked_invariants_def)
  show ?thesis
    using ok bad contra unfolding maker_checked_invariants_def by blast
qed

theorem maker_validate_checks_witness:
  "maker_asset_options_extension_validate
     \<lparr>is_maker_issued_asset = True, maker_fee_percent = 0, maker_reward_percent = 500,
      maker_reward_asset = Some (Asset_id 7), daily_reward_decay_rate = 200\<rparr>
   = Inl invariant_violation"
  using maker_validate_checks
    [of "\<lparr>is_maker_issued_asset = True, maker_fee_percent = 0, maker_reward_percent = 500,
          maker_reward_asset = Some (Asset_id 7), daily_reward_decay_rate = 200\<rparr>"]
  by simp

text \<open>
  Claim C10: the outcome of \<^verbatim>\<open>validate()\<close> does not depend on \<open>maker_reward_asset\<close>. Two
  records that agree on the four other fields have the same outcome, whatever their
  reward assets are.
\<close>

theorem maker_validate_ignores_reward_asset:
  assumes "is_maker_issued_asset r1 = is_maker_issued_asset r2"
    and "maker_fee_percent r1 = maker_fee_percent r2"
    and "maker_reward_percent r1 = maker_reward_percent r2"
    and "daily_reward_decay_rate r1 = daily_reward_decay_rate r2"
  shows "maker_asset_options_extension_validate r1 = maker_asset_options_extension_validate r2"
  using assms by (simp add: maker_asset_options_extension_validate_def)

theorem maker_validate_ignores_reward_asset_witness:
  "maker_asset_options_extension_validate
     \<lparr>is_maker_issued_asset = False, maker_fee_percent = 30, maker_reward_percent = 500,
      maker_reward_asset = None, daily_reward_decay_rate = 200\<rparr>
   = maker_asset_options_extension_validate
     \<lparr>is_maker_issued_asset = False, maker_fee_percent = 30, maker_reward_percent = 500,
      maker_reward_asset = Some (Asset_id 7), daily_reward_decay_rate = 200\<rparr>"
  using maker_validate_ignores_reward_asset
    [of "\<lparr>is_maker_issued_asset = False, maker_fee_percent = 30, maker_reward_percent = 500,
          maker_reward_asset = None, daily_reward_decay_rate = 200\<rparr>"
        "\<lparr>is_maker_issued_asset = False, maker_fee_percent = 30, maker_reward_percent = 500,
          maker_reward_asset = Some (Asset_id 7), daily_reward_decay_rate = 200\<rparr>"]
  by simp

section \<open>Default fee parameters\<close>

lemma unat_ucast_small: "unat w < 2 ^ 32 \<Longrightarrow> unat (ucast (w :: uint64_t) :: uint32_t) = unat w"
  by (simp add: unsigned_ucast_eq take_bit_nat_eq_self_iff)

text \<open>
  Claim C2, as the specification states it: every default is the listed number of units
  of \<^verbatim>\<open>BLOCKCHAIN_PRECISION\<close>. With a precision of 100000 units, the default
  \<open>price_per_kbyte\<close> of \<open>asset_create\<close> and of \<open>asset_update\<close> is the plain number 10 and
  not 10 times the precision.
\<close>

theorem default_price_per_kbyte_counterexample:
  "unat (asset_create_operation_fee_parameters_type.price_per_kbyte
          (asset_create_operation_fee_parameters_default 100000))
     \<noteq> 10 * unat (100000 :: uint64_t)
   \<and> unat (asset_update_operation_fee_parameters_type.price_per_kbyte
          (asset_update_operation_fee_parameters_default 100000))
     \<noteq> 10 * unat (100000 :: uint64_t)"
  by (simp add: asset_create_operation_fee_parameters_default_def
      asset_update_operation_fee_parameters_default_def)

text \<open>
  Claim C2, amended: for a \<^verbatim>\<open>BLOCKCHAIN_PRECISION\<close> that fits in 32 bits, the fees of the
  default-constructed parameters are the listed multiples of the precision
  (\<open>asset_create\<close>: 500000, 300000 and 5000; \<open>asset_update\<close> 500; \<open>asset_issue\<close> 20;
  \<open>asset_global_settle\<close> 500; \<open>asset_settle\<close> 100; \<open>asset_fund_fee_pool\<close> 1;
  \<open>asset_update_bitasset\<close> 500; \<open>asset_update_feed_producers\<close> 500;
  \<open>asset_publish_feed\<close> 1; \<open>asset_reserve\<close> 20), the \<open>price_per_kbyte\<close> of \<open>asset_issue\<close>
  is one unit of the precision, and the \<open>price_per_kbyte\<close> of \<open>asset_create\<close> and of
  \<open>asset_update\<close> is the number 10, not scaled by the precision.
\<close>

theorem default_fee_parameters:
  assumes "unat GRAPHENE_BLOCKCHAIN_PRECISION < 2 ^ 32"
  shows
  "unat (symbol3 (asset_create_operation_fee_parameters_default GRAPHENE_BLOCKCHAIN_PRECISION))
     = 500000 * unat GRAPHENE_BLOCKCHAIN_PRECISION
   \<and> unat (symbol4 (asset_create_operation_fee_parameters_default GRAPHENE_BLOCKCHAIN_PRECISION))
     = 300000 * unat GRAPHENE_BLOCKCHAIN_PRECISION
   \<and> unat (long_symbol (asset_create_operation_fee_parameters_default GRAPHENE_BLOCKCHAIN_PRECISION))
     = 5000 * unat GRAPHENE_BLOCKCHAIN_PRECISION
   \<and> unat (asset_create_operation_fee_parameters_type.price_per_kbyte
        (asset_create_operation_fee_parameters_default GRAPHENE_BLOCKCHAIN_PRECISION)) = 10
   \<and> unat (asset_update_operation_fee_parameters_type.fee
        (asset_update_operation_fee_parameters_default GRAPHENE_BLOCKCHAIN_PRECISION))
     = 500 * unat GRAPHENE_BLOCKCHAIN_PRECISION
   \<and> unat (asset_update_operation_fee_parameters_type.price_per_kbyte
        (asset_update_operation_fee_parameters_default GRAPHENE_BLOCKCHAIN_PRECISION)) = 10
   \<and> unat (asset_issue_operation_fee_parameters_type.fee
        (asset_issue_operation_fee_parameters_default GRAPHENE_BLOCKCHAIN_PRECISION))
     = 20 * unat GRAPHENE_BLOCKCHAIN_PRECISION
   \<and> unat (asset_issue_operation_fee_parameters_type.price_per_kbyte
        (asset_issue_operation_fee_parameters_default GRAPHENE_BLOCKCHAIN_PRECISION))
     = unat GRAPHENE_BLOCKCHAIN_PRECISION
   \<and> unat (asset_global_settle_operation_fee_parameters_type.fee
        (asset_global_settle_operation_fee_parameters_default GRAPHENE_BLOCKCHAIN_PRECISION))
     = 500 * unat GRAPHENE_BLOCKCHAIN_PRECISION
   \<and> unat (asset_settle_operation_fee_parameters_type.fee
        (asset_settle_operation_fee_parameters_default GRAPHENE_BLOCKCHAIN_PRECISION))
     = 100 * unat GRAPHENE_BLOCKCHAIN_PRECISION
   \<and> unat (asset_fund_fee_pool_operation_fee_parameters_type.fee
        (asset_fund_fee_pool_operation_fee_parameters_default GRAPHENE_BLOCKCHAIN_PRECISION))
     = unat GRAPHENE_BLOCKCHAIN_PRECISION
   \<and> unat (asset_update_bitasset_operation_fee_parameters_type.fee
        (asset_update_bitasset_operation_fee_parameters_default GRAPHENE_BLOCKCHAIN_PRECISION))
     = 500 * unat GRAPHENE_BLOCKCHAIN_PRECISION
   \<and> unat (asset_update_feed_producers_operation_fee_parameters_type.fee
        (asset_update_feed_producers_operation_fee_parameters_default GRAPHENE_BLOCKCHAIN_PRECISION))
     = 500 * unat GRAPHENE_BLOCKCHAIN_PRECISION
   \<and> unat (asset_publish_feed_operation_fee_parameters_type.fee
        (asset_publish_feed_operation_fee_parameters_default GRAPHENE_BLOCKCHAIN_PRECISION))
     = unat GRAPHENE_BLOCKCHAIN_PRECISION
   \<and> unat (asset_reserve_operation_fee_parameters_type.fee
        (asset_reserve_operation_fee_parameters_default GRAPHENE_BLOCKCHAIN_PRECISION))
     = 20 * unat GRAPHENE_BLOCKCHAIN_PRECISION"
proof -
  have create: "unat (500000 * GRAPHENE_BLOCKCHAIN_PRECISION) = 500000 * unat GRAPHENE_BLOCKCHAIN_PRECISION"
    "unat (300000 * GRAPHENE_BLOCKCHAIN_PRECISION) = 300000 * unat GRAPHENE_BLOCKCHAIN_PRECISION"
    "unat (5000 * GRAPHENE_BLOCKCHAIN_PRECISION) = 5000 * unat GRAPHENE_BLOCKCHAIN_PRECISION"
    using assms by (simp_all add: unat_word_ariths)
  have others: "unat (500 * GRAPHENE_BLOCKCHAIN_PRECISION) = 500 * unat GRAPHENE_BLOCKCHAIN_PRECISION"
    "unat (100 * GRAPHENE_BLOCKCHAIN_PRECISION) = 100 * unat GRAPHENE_BLOCKCHAIN_PRECISION"
    "unat (20 * GRAPHENE_BLOCKCHAIN_PRECISION) = 20 * unat GRAPHENE_BLOCKCHAIN_PRECISION"
    using assms by (simp_all add: unat_word_ariths)
  have narrow: "unat (ucast GRAPHENE_BLOCKCHAIN_PRECISION :: uint32_t) = unat GRAPHENE_BLOCKCHAIN_PRECISION"
    using assms by (rule unat_ucast_small)
  show ?thesis
    by (simp add: create others narrow
        asset_create_operation_fee_parameters_default_def
        asset_update_operation_fee_parameters_default_def
        asset_issue_operation_fee_parameters_default_def
        asset_global_settle_operation_fee_parameters_default_def
        asset_settle_operation_fee_parameters_default_def
        asset_fund_fee_pool_operation_fee_parameters_default_def
        asset_update_bitasset_operation_fee_parameters_default_def
        asset_update_feed_producers_operation_fee_parameters_default_def
        asset_publish_feed_operation_fee_parameters_default_def
        asset_reserve_operation_fee_parameters_default_def)
qed

theorem default_fee_parameters_witness:
  "unat (symbol3 (asset_create_operation_fee_parameters_default 100000)) = 50000000000
   \<and> unat (asset_create_operation_fee_parameters_type.price_per_kbyte
        (asset_create_operation_fee_parameters_default 100000)) = 10
   \<and> unat (asset_issue_operation_fee_parameters_type.price_per_kbyte
        (asset_issue_operation_fee_parameters_default 100000)) = 100000
   \<and> unat (asset_reserve_operation_fee_parameters_type.fee
        (asset_reserve_operation_fee_parameters_default 100000)) = 2000000"
proof -
  have fits: "unat (100000 :: uint64_t) < 2 ^ 32"
    by simp
  show ?thesis
    using default_fee_parameters [OF fits] by simp
qed

section \<open>The virtual operation asset_settle_cancel\<close>

text \<open>
  Claim C3: for every \<open>asset_settle_cancel\<close> record and every value of its fee
  parameters, \<^verbatim>\<open>calculate_fee\<close> returns 0 and \<^verbatim>\<open>validate()\<close> succeeds; both hold as well
  for a record whose amount is 0.
\<close>

theorem asset_settle_cancel_free_and_unchecked:
  "asset_settle_cancel_operation_calculate_fee r p = 0
   \<and> asset_settle_cancel_operation_validate r = Inr ()
   \<and> asset_settle_cancel_operation_calculate_fee
        (r\<lparr>asset_settle_cancel_operation.amount := \<lparr>asset.amount = 0, asset.asset_id = a\<rparr>\<rparr>) p = 0
   \<and> asset_settle_cancel_operation_validate
        (r\<lparr>asset_settle_cancel_operation.amount := \<lparr>asset.amount = 0, asset.asset_id = a\<rparr>\<rparr>) = Inr ()"
  by (simp add: asset_settle_cancel_operation_calculate_fee_def
      asset_settle_cancel_operation_validate_def)

section \<open>Fee payers\<close>

text \<open>
  Claim C4: \<^verbatim>\<open>fee_payer()\<close> returns the \<open>issuer\<close> of \<open>asset_create\<close>, \<open>asset_update\<close>,
  \<open>asset_update_bitasset\<close>, \<open>asset_update_feed_producers\<close>, \<open>asset_global_settle\<close> and
  \<open>asset_issue\<close>, the \<open>publisher\<close> of \<open>asset_publish_feed\<close>, the \<open>account\<close> of
  \<open>asset_settle\<close> and \<open>asset_settle_cancel\<close>, the \<open>payer\<close> of \<open>asset_reserve\<close> and the
  \<open>from_account\<close> of \<open>asset_fund_fee_pool\<close>.
\<close>

theorem fee_payer_table:
  "asset_create_operation_fee_payer c = asset_create_operation.issuer c
   \<and> asset_update_operation_fee_payer u = asset_update_operation.issuer u
   \<and> asset_update_bitasset_operation_fee_payer ub = asset_update_bitasset_operation.issuer ub
   \<and> asset_update_feed_producers_operation_fee_payer uf = asset_update_feed_producers_operation.issuer uf
   \<and> asset_global_settle_operation_fee_payer g = asset_global_settle_operation.issuer g
   \<and> asset_issue_operation_fee_payer i = asset_issue_operation.issuer i
   \<and> asset_publish_feed_operation_fee_payer pf = asset_publish_feed_operation.publisher pf
   \<and> asset_settle_operation_fee_payer s = asset_settle_operation.account s
   \<and> asset_settle_cancel_operation_fee_payer sc = asset_settle_cancel_operation.account sc
   \<and> asset_reserve_operation_fee_payer rs = asset_reserve_operation.payer rs
   \<and> asset_fund_fee_pool_operation_fee_payer ff = asset_fund_fee_pool_operation.from_account ff"
  by (simp add: asset_create_operation_fee_payer_def asset_update_operation_fee_payer_def
      asset_update_bitasset_operation_fee_payer_def
      asset_update_feed_producers_operation_fee_payer_def
      asset_global_settle_operation_fee_payer_def asset_issue_operation_fee_payer_def
      asset_publish_feed_operation_fee_payer_def asset_settle_operation_fee_payer_def
      asset_settle_cancel_operation_fee_payer_def asset_reserve_operation_fee_payer_def
      asset_fund_fee_pool_operation_fee_payer_def)

section \<open>Registered field orders\<close>

text \<open>
  Claim C9: the field order registered for each record is the order that the
  specification declares: the eleven operations as listed among its external
  interfaces, \<open>asset_options\<close> and \<open>bitasset_options\<close> as tabulated in its data model,
  and \<open>maker_asset_options_extension\<close> as \<open>is_maker_issued_asset\<close>,
  \<open>maker_fee_percent\<close>, \<open>maker_reward_percent\<close>, \<open>maker_reward_asset\<close>,
  \<open>daily_reward_decay_rate\<close>.
\<close>

theorem registered_field_orders:
  "asset_create_operation_reflect = spec_field_order ''asset_create''
   \<and> asset_update_operation_reflect = spec_field_order ''asset_update''
   \<and> asset_update_bitasset_operation_reflect = spec_field_order ''asset_update_bitasset''
   \<and> asset_update_feed_producers_operation_reflect = spec_field_order ''asset_update_feed_producers''
   \<and> asset_publish_feed_operation_reflect = spec_field_order ''asset_publish_feed''
   \<and> asset_settle_operation_reflect = spec_field_order ''asset_settle''
   \<and> asset_settle_cancel_operation_reflect = spec_field_order ''asset_settle_cancel''
   \<and> asset_global_settle_operation_reflect = spec_field_order ''asset_global_settle''
   \<and> asset_issue_operation_reflect = spec_field_order ''asset_issue''
   \<and> asset_reserve_operation_reflect = spec_field_order ''asset_reserve''
   \<and> asset_fund_fee_pool_operation_reflect = spec_field_order ''asset_fund_fee_pool''
   \<and> asset_options_reflect = spec_field_order ''asset_options''
   \<and> bitasset_options_reflect = spec_field_order ''bitasset_options''
   \<and> maker_asset_options_extension_reflect = spec_field_order ''maker_asset_options_extension''
   \<and> asset_create_operation_reflect =
       [''fee'', ''issuer'', ''symbol'', ''precision'', ''common_options'', ''bitasset_opts'',
        ''is_prediction_market'', ''extensions'']
   \<and> maker_asset_options_extension_reflect =
       [''is_maker_issued_asset'', ''maker_fee_percent'', ''maker_reward_percent'',
        ''maker_reward_asset'', ''daily_reward_decay_rate'']"
  by (simp add: spec_field_order_def
      asset_create_operation_reflect_def asset_update_operation_reflect_def
      asset_update_bitasset_operation_reflect_def
      asset_update_feed_producers_operation_reflect_def
      asset_publish_feed_operation_reflect_def asset_settle_operation_reflect_def
      asset_settle_cancel_operation_reflect_def asset_global_settle_operation_reflect_def
      asset_issue_operation_reflect_def asset_reserve_operation_reflect_def
      asset_fund_fee_pool_operation_reflect_def asset_options_reflect_def
      bitasset_options_reflect_def maker_asset_options_extension_reflect_def)

section \<open>Symbol validation\<close>

lemma one_dot_not_adjacent: "count_list s (CHR ''.'') \<le> 1 \<Longrightarrow> \<not> adjacent_dots s"
  by (induction s rule: adjacent_dots.induct) (auto split: if_splits)

text \<open>The two character classes are the letters and the digits written out.\<close>

lemma is_upper_alphabet: "is_upper c \<longleftrightarrow> c \<in> set ''ABCDEFGHIJKLMNOPQRSTUVWXYZ''"
proof
  assume "is_upper c"
  then have "65 \<le> (of_char c :: nat)" "(of_char c :: nat) \<le> 90"
    by (simp_all add: is_upper_def)
  then have "(of_char c :: nat) \<in> {65..<91}"
    by simp
  then have "(of_char c :: nat) \<in> set [65..<91]"
    by (simp only: set_upt)
  then have "char_of (of_char c :: nat) \<in> char_of ` set [65..<91::nat]"
    by (rule imageI)
  then have "c \<in> set (map char_of [65..<91::nat])"
    by simp
  also have "map char_of [65..<91::nat] = ''ABCDEFGHIJKLMNOPQRSTUVWXYZ''"
    by code_simp
  finally show "c \<in> set ''ABCDEFGHIJKLMNOPQRSTUVWXYZ''" .
next
  assume "c \<in> set ''ABCDEFGHIJKLMNOPQRSTUVWXYZ''"
  then show "is_upper c"
    by (auto simp: is_upper_def)
qed

lemma is_digit_alphabet: "is_digit c \<longleftrightarrow> c \<in> set ''0123456789''"
proof
  assume "is_digit c"
  then have "48 \<le> (of_char c :: nat)" "(of_char c :: nat) \<le> 57"
    by (simp_all add: is_digit_def)
  then have "(of_char c :: nat) \<in> {48..<58}"
    by simp
  then have "(of_char c :: nat) \<in> set [48..<58]"
    by (simp only: set_upt)
  then have "char_of (of_char c :: nat) \<in> char_of ` set [48..<58::nat]"
    by (rule imageI)
  then have "c \<in> set (map char_of [48..<58::nat])"
    by simp
  also have "map char_of [48..<58::nat] = ''0123456789''"
    by code_simp
  finally show "c \<in> set ''0123456789''" .
next
  assume "c \<in> set ''0123456789''"
  then show "is_digit c"
    by (auto simp: is_digit_def)
qed

lemma is_symbol_char_alphabet:
  "is_symbol_char c \<longleftrightarrow> c \<in> set ''ABCDEFGHIJKLMNOPQRSTUVWXYZ0123456789.''"
proof -
  have "''ABCDEFGHIJKLMNOPQRSTUVWXYZ0123456789.''
      = ''ABCDEFGHIJKLMNOPQRSTUVWXYZ'' @ ''0123456789'' @ ''.''"
    by simp
  then show ?thesis
    unfolding is_symbol_char_def is_upper_alphabet is_digit_alphabet
    by (simp only: set_append Un_iff) simp
qed

lemma all_symbol_chars:
  "list_all is_symbol_char s \<longleftrightarrow> set s \<subseteq> set ''ABCDEFGHIJKLMNOPQRSTUVWXYZ0123456789.''"
  unfolding list_all_iff subset_eq is_symbol_char_alphabet ..

lemmas symbol_evaluation =
  is_valid_symbol_def is_upper_def is_digit_def is_symbol_char_def

text \<open>
  Claim C7: \<^verbatim>\<open>is_valid_symbol\<close> holds if and only if the length of the symbol is between 3
  and 16, its first and its last character are letters \<open>A\<close> to \<open>Z\<close>, every character is
  one of \<open>A\<close> to \<open>Z\<close>, \<open>0\<close> to \<open>9\<close> and the dot, and at most one dot appears. It holds of
  \<open>BTS\<close>, \<open>ABC.XYZ\<close> and the 16 characters \<open>ABCDEFGHIJKLMNOP\<close>, and fails on \<open>AB\<close>, \<open>bts\<close>,
  \<open>A.B.C\<close> and the 17 characters \<open>ABCDEFGHIJKLMNOPQ\<close>.
\<close>

theorem is_valid_symbol_iff:
  "(is_valid_symbol s \<longleftrightarrow>
      3 \<le> length s \<and> length s \<le> 16
      \<and> hd s \<in> set ''ABCDEFGHIJKLMNOPQRSTUVWXYZ''
      \<and> last s \<in> set ''ABCDEFGHIJKLMNOPQRSTUVWXYZ''
      \<and> set s \<subseteq> set ''ABCDEFGHIJKLMNOPQRSTUVWXYZ0123456789.''
      \<and> count_list s (CHR ''.'') \<le> 1)
   \<and> is_valid_symbol ''BTS''
   \<and> is_valid_symbol ''ABC.XYZ''
   \<and> is_valid_symbol ''ABCDEFGHIJKLMNOP''
   \<and> \<not> is_valid_symbol ''AB''
   \<and> \<not> is_valid_symbol ''bts''
   \<and> \<not> is_valid_symbol ''A.B.C''
   \<and> \<not> is_valid_symbol ''ABCDEFGHIJKLMNOPQ''"
proof -
  have rules: "is_valid_symbol s \<longleftrightarrow>
      3 \<le> length s \<and> length s \<le> 16
      \<and> hd s \<in> set ''ABCDEFGHIJKLMNOPQRSTUVWXYZ''
      \<and> last s \<in> set ''ABCDEFGHIJKLMNOPQRSTUVWXYZ''
      \<and> set s \<subseteq> set ''ABCDEFGHIJKLMNOPQRSTUVWXYZ0123456789.''
      \<and> count_list s (CHR ''.'') \<le> 1"
    unfolding is_valid_symbol_def is_upper_alphabet all_symbol_chars
    using one_dot_not_adjacent [of s] by blast
  have yes: "is_valid_symbol ''BTS''" "is_valid_symbol ''ABC.XYZ''"
    "is_valid_symbol ''ABCDEFGHIJKLMNOP''"
    by (simp_all add: symbol_evaluation)
  have no: "\<not> is_valid_symbol ''AB''" "\<not> is_valid_symbol ''bts''"
    "\<not> is_valid_symbol ''A.B.C''" "\<not> is_valid_symbol ''ABCDEFGHIJKLMNOPQ''"
    by (simp_all add: symbol_evaluation)
  from rules yes no show ?thesis
    by blast
qed

section \<open>Validation of the option records\<close>

lemma price_validate_only_iv: "only_invariant_violation (price_validate p)"
  by (simp add: price_validate_def)

lemma extension_validate_only_iv: "only_invariant_violation (asset_options_extension_validate e)"
  by (cases e) (simp_all add: maker_validate_only_iv)

lemma extensions_validate_only_iv: "only_invariant_violation (asset_options_extensions_validate es)"
  by (induction es) (simp_all add: extension_validate_only_iv)

lemma extensions_validate_succeeds:
  "asset_options_extensions_validate es = Inr () \<longleftrightarrow>
     (\<forall>e\<in>set es. asset_options_extension_validate e = Inr ())"
  by (induction es) auto

lemma asset_options_validate_only_iv: "only_invariant_violation (asset_options_validate k opts)"
  by (simp add: asset_options_validate_def price_validate_only_iv extensions_validate_only_iv)

lemma price_validate_succeeds:
  "price_validate p = Inr () \<longleftrightarrow>
     0 < asset.amount (base p) \<and> 0 < asset.amount (quote p) \<and>
     asset.asset_id (base p) \<noteq> asset.asset_id (quote p)"
  by (simp add: price_validate_def)

lemma asset_options_validate_succeeds:
  "asset_options_validate k opts = Inr () \<longleftrightarrow>
     0 < max_supply opts \<and> max_supply opts \<le> MAX_SHARE_SUPPLY k \<and>
     market_fee_percent opts \<le> 10000 \<and>
     0 \<le> max_market_fee opts \<and> max_market_fee opts \<le> MAX_SHARE_SUPPLY k \<and>
     flags opts AND NOT (issuer_permissions opts) = 0 \<and>
     issuer_permissions opts AND NOT (UIA_ASSET_ISSUER_PERMISSION_MASK k) = 0 \<and>
     whitelist_markets opts \<inter> blacklist_markets opts = {} \<and>
     price_validate (core_exchange_rate opts) = Inr () \<and>
     asset_options_extensions_validate (asset_options.extensions opts) = Inr () \<and>
     distinct (map which (asset_options.extensions opts))"
  by (simp add: asset_options_validate_def conj_ac)

text \<open>
  Claim C6: \<^verbatim>\<open>asset_options.validate()\<close> fails with \<open>invariant_violation\<close> if
  \<open>max_supply\<close> is not positive or exceeds \<open>MAX_SHARE_SUPPLY\<close>, if \<open>market_fee_percent\<close>
  exceeds 10000, if \<open>max_market_fee\<close> is negative or exceeds \<open>MAX_SHARE_SUPPLY\<close>, if
  \<open>flags\<close> has a bit that \<open>issuer_permissions\<close> lacks, if \<open>issuer_permissions\<close> has a bit
  outside \<open>UIA_ASSET_ISSUER_PERMISSION_MASK\<close>, if the two market lists intersect, if a
  leg of \<open>core_exchange_rate\<close> has a non-positive amount or both legs have the same
  asset id, if an extension fails its own validation, or if two extensions share a
  tag; and it succeeds otherwise.
\<close>

theorem asset_options_validate_fails_iff:
  "asset_options_validate k opts =
    (if max_supply opts \<le> 0 \<or> MAX_SHARE_SUPPLY k < max_supply opts
        \<or> 10000 < market_fee_percent opts
        \<or> max_market_fee opts < 0 \<or> MAX_SHARE_SUPPLY k < max_market_fee opts
        \<or> flags opts AND NOT (issuer_permissions opts) \<noteq> 0
        \<or> issuer_permissions opts AND NOT (UIA_ASSET_ISSUER_PERMISSION_MASK k) \<noteq> 0
        \<or> whitelist_markets opts \<inter> blacklist_markets opts \<noteq> {}
        \<or> asset.amount (base (core_exchange_rate opts)) \<le> 0
        \<or> asset.amount (quote (core_exchange_rate opts)) \<le> 0
        \<or> asset.asset_id (base (core_exchange_rate opts))
            = asset.asset_id (quote (core_exchange_rate opts))
        \<or> (\<exists>e\<in>set (asset_options.extensions opts). asset_options_extension_validate e \<noteq> Inr ())
        \<or> \<not> distinct (map which (asset_options.extensions opts))
     then Inl invariant_violation else Inr ())"
proof -
  let ?fails = "max_supply opts \<le> 0 \<or> MAX_SHARE_SUPPLY k < max_supply opts
        \<or> 10000 < market_fee_percent opts
        \<or> max_market_fee opts < 0 \<or> MAX_SHARE_SUPPLY k < max_market_fee opts
        \<or> flags opts AND NOT (issuer_permissions opts) \<noteq> 0
        \<or> issuer_permissions opts AND NOT (UIA_ASSET_ISSUER_PERMISSION_MASK k) \<noteq> 0
        \<or> whitelist_markets opts \<inter> blacklist_markets opts \<noteq> {}
        \<or> asset.amount (base (core_exchange_rate opts)) \<le> 0
        \<or> asset.amount (quote (core_exchange_rate opts)) \<le> 0
        \<or> asset.asset_id (base (core_exchange_rate opts))
            = asset.asset_id (quote (core_exchange_rate opts))
        \<or> (\<exists>e\<in>set (asset_options.extensions opts). asset_options_extension_validate e \<noteq> Inr ())
        \<or> \<not> distinct (map which (asset_options.extensions opts))"
  have ok: "asset_options_validate k opts = Inr () \<longleftrightarrow> \<not> ?fails"
    unfolding asset_options_validate_succeeds price_validate_succeeds extensions_validate_succeeds
    by (auto simp: not_le not_less)
  show ?thesis
  proof (cases ?fails)
    case True
    with ok have "asset_options_validate k opts \<noteq> Inr ()"
      by blast
    then have "asset_options_validate k opts = Inl invariant_violation"
      by (rule only_iv_fails [OF asset_options_validate_only_iv])
    with True show ?thesis
      by presburger
  next
    case False
    with ok have "asset_options_validate k opts = Inr ()"
      by blast
    with False show ?thesis
      by presburger
  qed
qed

theorem asset_options_validate_fails_iff_witness:
  "asset_options_validate scenario_constants scenario_options = Inr ()
   \<and> asset_options_validate scenario_constants overlap_options = Inl invariant_violation"
  using asset_options_validate_fails_iff [of scenario_constants scenario_options]
    asset_options_validate_fails_iff [of scenario_constants overlap_options]
  by (simp add: scenario_constants_def scenario_options_def overlap_options_def)

section \<open>Validation of asset_create\<close>

lemma bitasset_options_validate_only_iv: "only_invariant_violation (bitasset_options_validate k b)"
  by (simp add: bitasset_options_validate_def)

lemma asset_create_validate_only_iv: "only_invariant_violation (asset_create_operation_validate k r)"
  by (simp add: asset_create_operation_validate_def asset_options_validate_only_iv
      bitasset_options_validate_only_iv only_invariant_violation_def [of "Inl invariant_violation"]
      split: option.split)

lemma asset_create_validate_bitasset:
  assumes "asset_create_operation_validate k r = Inr ()"
  shows "if flags (common_options r) AND MARKET_ISSUED k \<noteq> 0
         then \<exists>b. bitasset_opts r = Some b \<and> bitasset_options_validate k b = Inr ()
         else bitasset_opts r = None"
  using assms
  by (auto simp: asset_create_operation_validate_def split: if_splits option.splits)

lemma scenario_create_validates:
  "asset_create_operation_validate scenario_constants scenario_create = Inr ()"
  by (simp add: asset_create_operation_validate_def asset_options_validate_def price_validate_def
      scenario_constants_def scenario_create_def scenario_options_def symbol_evaluation)

lemma scenario_create_bitasset_validates:
  "asset_create_operation_validate scenario_constants scenario_create_bitasset = Inr ()"
  by (simp add: asset_create_operation_validate_def asset_options_validate_def price_validate_def
      bitasset_options_validate_def scenario_bitasset_options_def
      scenario_constants_def scenario_create_def scenario_options_def
      scenario_create_bitasset_def scenario_create_flagged_def symbol_evaluation)

text \<open>
  Claim C5: \<^verbatim>\<open>asset_create_operation.validate()\<close> enforces that \<open>bitasset_opts\<close> is present
  exactly when the \<open>MARKET_ISSUED\<close> bit is set in \<open>common_options.flags\<close>. On a record
  that validates, the bit is set if and only if \<open>bitasset_opts\<close> is present; if the bit
  is set, \<open>bitasset_opts\<close> is present and validates itself; if the bit is clear,
  \<open>bitasset_opts\<close> is absent. A record with the bit set and \<open>bitasset_opts\<close> absent fails
  with \<open>invariant_violation\<close>.
\<close>

theorem asset_create_validate_market_issued:
  "(asset_create_operation_validate k r = Inr () \<longrightarrow>
      (flags (common_options r) AND MARKET_ISSUED k \<noteq> 0 \<longleftrightarrow> bitasset_opts r \<noteq> None)
      \<and> (flags (common_options r) AND MARKET_ISSUED k \<noteq> 0 \<longrightarrow>
           (\<exists>b. bitasset_opts r = Some b \<and> bitasset_options_validate k b = Inr ()))
      \<and> (flags (common_options r) AND MARKET_ISSUED k = 0 \<longrightarrow> bitasset_opts r = None))
   \<and> (flags (common_options r) AND MARKET_ISSUED k \<noteq> 0 \<and> bitasset_opts r = None \<longrightarrow>
        asset_create_operation_validate k r = Inl invariant_violation)"
proof -
  have ok: "(flags (common_options r) AND MARKET_ISSUED k \<noteq> 0 \<longleftrightarrow> bitasset_opts r \<noteq> None)
      \<and> (flags (common_options r) AND MARKET_ISSUED k \<noteq> 0 \<longrightarrow>
           (\<exists>b. bitasset_opts r = Some b \<and> bitasset_options_validate k b = Inr ()))
      \<and> (flags (common_options r) AND MARKET_ISSUED k = 0 \<longrightarrow> bitasset_opts r = None)"
    if "asset_create_operation_validate k r = Inr ()"
    using asset_create_validate_bitasset [OF that] by (auto split: if_splits)
  have bad: "asset_create_operation_validate k r = Inl invariant_violation"
    if "flags (common_options r) AND MARKET_ISSUED k \<noteq> 0" "bitasset_opts r = None"
  proof -
    have "asset_create_operation_validate k r \<noteq> Inr ()"
      using asset_create_validate_bitasset [of k r] that by auto
    then show ?thesis
      by (rule only_iv_fails [OF asset_create_validate_only_iv])
  qed
  show ?thesis
    using ok bad by blast
qed

theorem asset_create_validate_market_issued_witness:
  "asset_create_operation_validate scenario_constants scenario_create_flagged = Inl invariant_violation
   \<and> asset_create_operation_validate scenario_constants scenario_create_bitasset = Inr ()
   \<and> (\<exists>b. bitasset_opts scenario_create_bitasset = Some b
          \<and> bitasset_options_validate scenario_constants b = Inr ())
   \<and> asset_create_operation_validate scenario_constants scenario_create = Inr ()
   \<and> bitasset_opts scenario_create = None"
proof -
  have flagged:
    "flags (common_options scenario_create_flagged) AND MARKET_ISSUED scenario_constants \<noteq> 0"
    "bitasset_opts scenario_create_flagged = None"
    by (simp_all add: scenario_create_flagged_def scenario_create_def scenario_options_def
        scenario_constants_def)
  have present: "flags (common_options scenario_create_bitasset) AND MARKET_ISSUED scenario_constants \<noteq> 0"
    by (simp add: scenario_create_bitasset_def scenario_create_flagged_def scenario_create_def
        scenario_options_def scenario_constants_def)
  have clear: "flags (common_options scenario_create) AND MARKET_ISSUED scenario_constants = 0"
    by (simp add: scenario_create_def scenario_options_def scenario_constants_def)
  show ?thesis
    using asset_create_validate_market_issued [of scenario_constants scenario_create_flagged]
      asset_create_validate_market_issued [of scenario_constants scenario_create_bitasset]
      asset_create_validate_market_issued [of scenario_constants scenario_create]
      flagged present clear scenario_create_validates scenario_create_bitasset_validates
    by blast
qed

section \<open>Fee computation\<close>








text \<open>
  Two scenarios of the specification: the short-symbol asset with an empty description
  costs \<open>symbol3\<close>, and an issue with a memo of 2048 serialised bytes costs the base fee
  plus twice \<open>price_per_kbyte\<close>.
\<close>

lemma scenario_create_fee:
  "asset_create_operation_calculate_fee scenario_create k = sint (symbol3 k)"
  by (simp add: asset_create_operation_calculate_fee_def asset_create_operation_base_fee_def
      fee_with_surcharge_def scenario_create_def scenario_options_def kbytes_def)

lemma issue_fee_2048:
  "pack_size d = 2048 \<Longrightarrow>
   asset_issue_operation_calculate_fee pack_size (r\<lparr>memo := Some d\<rparr>) k
     = sint (asset_issue_operation_fee_parameters_type.fee k
         + 2 * ucast (asset_issue_operation_fee_parameters_type.price_per_kbyte k))"
  by (simp add: asset_issue_operation_calculate_fee_def fee_with_surcharge_def size_of_memo_def
      kbytes_def mult.commute)




end
